theory Spec2Isabelle
  imports Main "HOL-Library.Char_ord" "HOL-Library.List_Lexorder" "HOL-Library.Multiset"
begin

section \<open>Shared data: JSON values and Python exceptions\<close>

text \<open>
  Both programs exchange JSON. A parsed JSON value is what Python's \<open>json\<close> module (and
  Flask's \<open>request.json\<close>, \<open>requests\<close>' \<open>response.json()\<close>) returns: \<open>None\<close>, a bool, an
  int, a str, a list or a dict. An object keeps its members in an association list; Python
  keeps the last value of a repeated key. Numbers with a fraction or an exponent are not
  represented.
\<close>

datatype json =
    JNull
  | JBool bool
  | JInt int
  | JStr string
  | JArr "json list"
  | JObj "(string \<times> json) list"

text \<open>
  The exceptions the two programs can meet. Those raised by an outside service (camera,
  network, language model, shell) are carried by the environment of a call as a value of
  this type.
\<close>

datatype exn =
    KeyError
  | IndexError
  | TypeError
  | AttributeError
  | OverflowError
  | BadRequestKeyError
  | SqliteBindError
  | SqliteFullError
  | RequestException
  | JSONDecodeError
  | OpenAIError
  | GoogleAPIError
  | CameraError
  | OSError

definition dict_get :: "(string \<times> json) list \<Rightarrow> string \<Rightarrow> json option" where
  \<comment> \<open>lookup in a parsed object; of a repeated key the last member counts\<close>
  "dict_get kvs k = map_of (rev kvs) k"

fun subscript :: "json \<Rightarrow> string \<Rightarrow> exn + json" where
  \<comment> \<open>Python's \<open>v[k]\<close> with a string key\<close>
  "subscript (JObj kvs) k = (case dict_get kvs k of None \<Rightarrow> Inl KeyError | Some v \<Rightarrow> Inr v)"
| "subscript v k = Inl TypeError"

fun subscript0 :: "json \<Rightarrow> exn + json" where
  \<comment> \<open>Python's \<open>v[0]\<close>; the keys of a parsed object are strings, so \<open>0\<close> is never one\<close>
  "subscript0 (JArr []) = Inl IndexError"
| "subscript0 (JArr (v # vs)) = Inr v"
| "subscript0 (JStr []) = Inl IndexError"
| "subscript0 (JStr (c # cs)) = Inr (JStr [c])"
| "subscript0 (JObj kvs) = Inl KeyError"
| "subscript0 v = Inl TypeError"

fun truthy :: "json \<Rightarrow> bool" where
  \<comment> \<open>Python's truth value of a parsed JSON value\<close>
  "truthy JNull = False"
| "truthy (JBool b) = b"
| "truthy (JInt i) = (i \<noteq> 0)"
| "truthy (JStr s) = (s \<noteq> [])"
| "truthy (JArr vs) = (vs \<noteq> [])"
| "truthy (JObj kvs) = (kvs \<noteq> [])"


fun dec_nat :: "nat \<Rightarrow> string" where
  "dec_nat n = (if n < 10 then [char_of (48 + n)]
                else dec_nat (n div 10) @ [char_of (48 + n mod 10)])"

declare dec_nat.simps [simp del]

definition dec_int :: "int \<Rightarrow> string" where
  \<comment> \<open>the decimal text of an integer\<close>
  "dec_int i = (if i < 0 then CHR ''-'' # dec_nat (nat (- i)) else dec_nat (nat i))"

section \<open>The server (\<open>server/app2.py\<close>)\<close>

subsection \<open>The content table\<close>

text \<open>
  \<open>init_db\<close> creates \<open>content (id INTEGER PRIMARY KEY, image TEXT, description TEXT,
  timestamp TEXT, deviceid TEXT)\<close>. A row is a record of its columns; a TEXT column holds text
  or NULL. The timestamp is always the text \<open>add_content\<close> formats. The table is the list of
  its rows in storage order.
\<close>

record content_row =
  id_col :: int
  image :: "string option"
  description :: "string option"
  timestamp :: string
  deviceid :: "string option"

type_synonym content_table = "content_row list"

definition init_db :: "content_table option \<Rightarrow> content_table" where
  \<comment> \<open>\<open>CREATE TABLE IF NOT EXISTS\<close>: an existing table is kept, a missing one starts empty\<close>
  "init_db existing = (case existing of None \<Rightarrow> [] | Some t \<Rightarrow> t)"

fun sql_bind :: "json \<Rightarrow> exn + string option" where
  \<comment> \<open>binding a Python value to a parameter stored in a TEXT column: \<open>None\<close> is NULL, a
      str is stored as it is, an int (a bool is one) is stored as its decimal text if it fits
      64 bits, a list or a dict is refused\<close>
  "sql_bind JNull = Inr None"
| "sql_bind (JStr s) = Inr (Some s)"
| "sql_bind (JBool b) = Inr (Some (if b then ''1'' else ''0''))"
| "sql_bind (JInt i) =
     (if - (2 ^ 63) \<le> i \<and> i < 2 ^ 63 then Inr (Some (dec_int i)) else Inl OverflowError)"
| "sql_bind (JArr vs) = Inl SqliteBindError"
| "sql_bind (JObj kvs) = Inl SqliteBindError"

definition max_rowid :: int where
  "max_rowid = 2 ^ 63 - 1"

definition next_rowid :: "int option \<Rightarrow> content_table \<Rightarrow> exn + int" where
  \<comment> \<open>the id SQLite gives a row inserted without one into an \<open>INTEGER PRIMARY KEY\<close> column
      (declared without AUTOINCREMENT): 1 in an empty table, else one more than the largest
      id present; when that is the largest 64-bit integer, an unused positive id found by
      random search (\<open>pick\<close>), or the insert fails\<close>
  "next_rowid pick t =
     (if t = [] then Inr 1
      else let m = Max (set (map id_col t)) in
        if m < max_rowid then Inr (m + 1)
        else (case pick of
                None \<Rightarrow> Inl SqliteFullError
              | Some i \<Rightarrow> if 0 < i \<and> i \<notin> set (map id_col t) then Inr i
                          else Inl SqliteFullError))"

definition select_all :: "content_table \<Rightarrow> content_row list" where
  \<comment> \<open>\<open>SELECT * FROM content\<close>\<close>
  "select_all t = t"

definition select_between :: "string \<Rightarrow> string \<Rightarrow> content_table \<Rightarrow> content_row list" where
  \<comment> \<open>\<open>SELECT ... FROM content WHERE timestamp BETWEEN ? AND ? ORDER BY timestamp\<close>: text is
      compared byte by byte; rows of equal timestamp stay in storage order\<close>
  "select_between a b t =
     sort_key timestamp (filter (\<lambda>r. a \<le> timestamp r \<and> timestamp r \<le> b) t)"

definition delete_id :: "(string \<Rightarrow> int \<Rightarrow> bool) \<Rightarrow> string \<Rightarrow> content_table \<Rightarrow> content_table" where
  \<comment> \<open>\<open>DELETE FROM content WHERE id = ?\<close> with the form's text as parameter; \<open>eq\<close> is
      SQLite's comparison of that text with an integer id\<close>
  "delete_id eq cid t = filter (\<lambda>r. \<not> eq cid (id_col r)) t"

definition decimal_eq :: "string \<Rightarrow> int \<Rightarrow> bool" where
  \<comment> \<open>the comparison on the texts the page's checkboxes submit (\<open>value="{{ content["id"] }}"\<close>):
      the decimal text of the id. SQLite also accepts other spellings of the number, which
      this comparison does not\<close>
  "decimal_eq s i = (s = dec_int i)"

subsection \<open>Outside services of the server\<close>

record chat_request =
  model :: string
  messages :: "(string \<times> string) list"

text \<open>
  What one request handler meets outside the program: \<open>openai_model\<close> is the configured
  model name; \<open>vision_api img\<close> is what \<open>requests.post(...).json()\<close> gives in
  \<open>analyze_image\<close> for the image \<open>img\<close> (\<open>Inl\<close> when the call or the decoding raises);
  \<open>now\<close> is the text of \<open>datetime.now().strftime("%Y-%m-%d %H:%M:%S")\<close>; \<open>rowid_pick\<close>
  is the result of SQLite's random search for a free id; \<open>chat_api\<close> is what
  \<open>OpenAI().chat.completions.create(...).choices[0].message.content\<close> gives for a request;
  \<open>id_eq\<close> is SQLite's comparison of a text parameter with an integer id.
\<close>

record server_env =
  openai_model :: string
  vision_api :: "json \<Rightarrow> exn + json"
  now :: string
  rowid_pick :: "int option"
  chat_api :: "chat_request \<Rightarrow> exn + string option"
  id_eq :: "string \<Rightarrow> int \<Rightarrow> bool"

definition and_then :: "exn + 'a \<Rightarrow> ('a \<Rightarrow> exn + 'b) \<Rightarrow> exn + 'b" where
  \<comment> \<open>sequencing of two steps either of which may raise\<close>
  "and_then r f = (case r of Inl e \<Rightarrow> Inl e | Inr v \<Rightarrow> f v)"

definition analyze_image :: "server_env \<Rightarrow> json \<Rightarrow> exn + json" where
  "analyze_image env base64_image = vision_api env base64_image"

subsection \<open>\<open>POST /add_content\<close>\<close>

record http_reply =
  status :: nat
  body :: json

record add_result =
  reply :: "exn + http_reply"
  table :: content_table
  vision_calls :: "json list"

definition content_of :: "json \<Rightarrow> exn + json" where
  \<comment> \<open>\<open>temp['choices'][0]['message']['content']\<close>\<close>
  "content_of temp =
     and_then (and_then (and_then (subscript temp ''choices'') subscript0)
       (\<lambda>c. subscript c ''message'')) (\<lambda>m. subscript m ''content'')"

fun get_default :: "json \<Rightarrow> string \<Rightarrow> json \<Rightarrow> exn + json" where
  \<comment> \<open>Python's \<open>v.get(k, d)\<close>\<close>
  "get_default (JObj kvs) k d = Inr (case dict_get kvs k of None \<Rightarrow> d | Some v \<Rightarrow> v)"
| "get_default v k d = Inl AttributeError"

definition insert_content ::
  "server_env \<Rightarrow> json \<Rightarrow> json \<Rightarrow> string \<Rightarrow> json \<Rightarrow> content_table \<Rightarrow> exn + content_table" where
  \<comment> \<open>\<open>INSERT INTO content (image, description, timestamp, deviceid) VALUES (?, ?, ?, ?)\<close>
      and the commit: the parameters are bound in order, then the row gets its id. The new
      row is put last, which is where a scan by id finds it whenever its id is the largest\<close>
  "insert_content env img descr ts dev t =
     and_then (sql_bind img) (\<lambda>i.
     and_then (sql_bind descr) (\<lambda>d.
     and_then (sql_bind dev) (\<lambda>v.
     and_then (next_rowid (rowid_pick env) t) (\<lambda>n.
       Inr (t @ [\<lparr>id_col = n, image = i, description = d, timestamp = ts, deviceid = v\<rparr>])))))"

definition add_content :: "server_env \<Rightarrow> json \<Rightarrow> content_table \<Rightarrow> add_result" where
  "add_content env content_data t =
     (case subscript content_data ''image'' of
        Inl e \<Rightarrow> \<lparr>reply = Inl e, table = t, vision_calls = []\<rparr>
      | Inr img \<Rightarrow>
         (case analyze_image env img of
            Inl e \<Rightarrow> \<lparr>reply = Inl e, table = t, vision_calls = [img]\<rparr>
          | Inr temp \<Rightarrow>
             (case content_of temp of
                Inl e \<Rightarrow>
                  \<lparr>reply = Inr \<lparr>status = 201, body = JObj [(''message'', JStr ''No Content added'')]\<rparr>,
                   table = t, vision_calls = [img]\<rparr>
              | Inr descr \<Rightarrow>
                 (case and_then (get_default content_data ''deviceid'' (JStr ''Unknown''))
                         (\<lambda>dev. insert_content env img descr (now env) dev t) of
                    Inl e \<Rightarrow> \<lparr>reply = Inl e, table = t, vision_calls = [img]\<rparr>
                  | Inr t' \<Rightarrow>
                      \<lparr>reply = Inr \<lparr>status = 201,
                                    body = JObj [(''message'', JStr ''Content added successfully'')]\<rparr>,
                       table = t', vision_calls = [img]\<rparr>))))"

subsection \<open>\<open>GET /get_contents\<close>\<close>

definition get_contents :: "content_table \<Rightarrow> content_row list" where
  "get_contents t = select_all t"

subsection \<open>\<open>GET|POST /contents\<close>\<close>

datatype http_method = GET | POST

text \<open>
  A request carries its method, its form fields and its query arguments, both in the order
  sent and with repeated names. \<open>form[k]\<close> is the first value of \<open>k\<close> and raises when there is
  none; \<open>getlist\<close> gives all values; \<open>args.get(k, d)\<close> is the first value or \<open>d\<close>.
\<close>

record request =
  req_method :: http_method
  form :: "(string \<times> string) list"
  args :: "(string \<times> string) list"

definition form_item :: "(string \<times> string) list \<Rightarrow> string \<Rightarrow> exn + string" where
  "form_item f k = (case map_of f k of None \<Rightarrow> Inl BadRequestKeyError | Some v \<Rightarrow> Inr v)"

definition getlist :: "(string \<times> string) list \<Rightarrow> string \<Rightarrow> string list" where
  "getlist f k = map snd (filter (\<lambda>kv. fst kv = k) f)"

definition args_get :: "(string \<times> string) list \<Rightarrow> string \<Rightarrow> string \<Rightarrow> string" where
  "args_get a k d = (case map_of a k of None \<Rightarrow> d | Some v \<Rightarrow> v)"

record contents_page =
  contents :: "content_row list"
  include_images :: bool

definition delete_selected :: "(string \<Rightarrow> int \<Rightarrow> bool) \<Rightarrow> string list \<Rightarrow> content_table \<Rightarrow> content_table" where
  \<comment> \<open>the loop \<open>for content_id in selected_ids: DELETE ...\<close>\<close>
  "delete_selected eq selected_ids t = fold (delete_id eq) selected_ids t"

definition date_fields :: "(string \<times> string) list \<Rightarrow> exn + (string \<times> string \<times> string \<times> string)" where
  \<comment> \<open>the four reads \<open>request.form['start_date']\<close>, \<open>['start_time']\<close>, \<open>['end_date']\<close>,
      \<open>['end_time']\<close>, in this order\<close>
  "date_fields f =
     and_then (form_item f ''start_date'') (\<lambda>start_date.
     and_then (form_item f ''start_time'') (\<lambda>start_time.
     and_then (form_item f ''end_date'') (\<lambda>end_date.
     and_then (form_item f ''end_time'') (\<lambda>end_time.
       Inr (start_date, start_time, end_date, end_time)))))"

definition manage_contents ::
  "server_env \<Rightarrow> request \<Rightarrow> content_table \<Rightarrow> (exn + contents_page) \<times> content_table" where
  \<comment> \<open>\<open>start_date\<close> stays \<open>None\<close> on GET; on POST the date fields are read first, then the
      selected rows are deleted and the deletion committed\<close>
  "manage_contents env req t =
     (case (if req_method req = POST
            then and_then (date_fields (form req)) (\<lambda>d.
                   Inr (Some d, delete_selected (id_eq env) (getlist (form req) ''content_id'') t))
            else Inr (None, t)) of
        Inl e \<Rightarrow> (Inl e, t)
      | Inr (dates, t') \<Rightarrow>
          (Inr \<lparr>contents =
                  (case dates of
                     None \<Rightarrow> select_all t'
                   | Some (start_date, start_time, end_date, end_time) \<Rightarrow>
                       select_between (start_date @ '' '' @ start_time)
                         (end_date @ '' '' @ end_time) t'),
                include_images = (args_get (args req) ''i'' ''0'' = ''1'')\<rparr>,
           t'))"

subsection \<open>\<open>GET|POST /query\<close>\<close>










section \<open>The camera device (\<open>device/cam4.py\<close>)\<close>

subsection \<open>Configuration, state and outside services\<close>

record device_config =
  shutdown_counter_max :: int
  default_device_id :: string
  contentserver_url :: string
  openai_model_cam4 :: string
  max_tokens :: int

definition analysis_prompt :: string where
  "analysis_prompt = ''What is in this image? Be as specific as possible, and list all attributes about the detected objects.  Provide relative locations of objects. Provide your best guesses on scene this is and your reasoning for these guesses.''"

datatype level = LOW | HIGH

type_synonym pil_image = nat

text \<open>The commands and requests the device sends outside, in the order it sends them.\<close>

datatype effect =
    OsSystem string
  | OsPopen string
  | HttpPost string json
  | GenerateContent pil_image

text \<open>
  The module's globals, the two LED outputs, and the trace of what was sent outside.
  \<open>picam2\<close> is \<open>None\<close> or a camera handle. The main block switches both LEDs on before
  it waits for button presses.
\<close>

record device_state =
  shutdownCounter :: int
  picam2 :: "nat option"
  devId :: json
  ip :: json
  firstTime :: int
  led_1 :: level
  led_2 :: level
  effects :: "effect list"

definition initial_state :: "device_config \<Rightarrow> device_state" where
  "initial_state cfg =
     \<lparr>shutdownCounter = shutdown_counter_max cfg, picam2 = None,
      devId = JStr (default_device_id cfg), ip = JStr [], firstTime = 0,
      led_1 = HIGH, led_2 = HIGH, effects = []\<rparr>"

text \<open>
  What one capture meets outside the program: \<open>new_camera\<close> is the result of \<open>Picamera2()\<close>;
  \<open>ip_route\<close> of \<open>json.loads(os.popen("ip -j -4 route").read())\<close>; \<open>frame\<close> of the camera
  and image calls from \<open>create_preview_configuration\<close> to \<open>b64encode\<close> (the base64 text
  and the image); \<open>gemini\<close> of the calls in \<open>analyze_image_google\<close>; \<open>post_reply\<close> of
  \<open>requests.post\<close> to the content server and of reading the reply's text. \<open>Inl\<close> is the
  exception raised.
\<close>

record capture_env =
  new_camera :: "exn + nat"
  ip_route :: "exn + json"
  frame :: "exn + string \<times> pil_image"
  gemini :: "exn + string"
  post_reply :: "exn + string"

definition emit :: "effect \<Rightarrow> device_state \<Rightarrow> device_state" where
  "emit e s = s\<lparr>effects := effects s @ [e]\<rparr>"

subsection \<open>Device identity\<close>

fun iterate :: "json \<Rightarrow> exn + json list" where
  \<comment> \<open>the items a \<open>for\<close> loop over a parsed value visits: the elements of a list, the keys
      of a dict, the characters of a str\<close>
  "iterate (JArr vs) = Inr vs"
| "iterate (JObj kvs) = Inr (map JStr (rev (remdups (rev (map fst kvs)))))"
| "iterate (JStr cs) = Inr (map (\<lambda>c. JStr [c]) cs)"
| "iterate v = Inl TypeError"

definition route_ip :: "json \<Rightarrow> exn + json option" where
  \<comment> \<open>the loop body's test \<open>r.get("dev") == "wlan0" and r.get("prefsrc")\<close> and the value
      \<open>r['prefsrc']\<close> it then assigns; only a dict has \<open>get\<close>\<close>
  "route_ip r =
     (case r of
        JObj kvs \<Rightarrow>
          Inr (if dict_get kvs ''dev'' = Some (JStr ''wlan0'')
               then (case dict_get kvs ''prefsrc'' of
                       None \<Rightarrow> None
                     | Some v \<Rightarrow> if truthy v then Some v else None)
               else None)
      | _ \<Rightarrow> Inl AttributeError)"

fun getIP_loop :: "json list \<Rightarrow> device_state \<Rightarrow> exn option \<times> device_state" where
  "getIP_loop [] s = (None, s)"
| "getIP_loop (r # rs) s =
     (case route_ip r of
        Inl e \<Rightarrow> (Some e, s)
      | Inr None \<Rightarrow> getIP_loop rs s
      | Inr (Some v) \<Rightarrow> getIP_loop rs (s\<lparr>ip := v\<rparr>))"

definition getIP :: "capture_env \<Rightarrow> device_state \<Rightarrow> exn option \<times> device_state" where
  "getIP env s0 =
     (let s = emit (OsPopen ''ip -j -4 route'') s0 in
      case and_then (ip_route env) iterate of
        Inl e \<Rightarrow> (Some e, s)
      | Inr routes \<Rightarrow>
          (case getIP_loop routes s of
             (Some e, s') \<Rightarrow> (Some e, s')
           | (None, s') \<Rightarrow> (None, s'\<lparr>devId := ip s'\<rparr>)))"

fun is_dict :: "json \<Rightarrow> bool" where
  "is_dict (JObj kvs) = True"
| "is_dict v = False"

definition wlan0_prefsrc :: "json \<Rightarrow> json option" where
  \<comment> \<open>the \<open>prefsrc\<close> of a route on interface \<open>wlan0\<close>, when it has one that counts as true\<close>
  "wlan0_prefsrc r =
     (case r of
        JObj kvs \<Rightarrow>
          (if dict_get kvs ''dev'' = Some (JStr ''wlan0'')
           then (case dict_get kvs ''prefsrc'' of
                   None \<Rightarrow> None
                 | Some v \<Rightarrow> if truthy v then Some v else None)
           else None)
      | _ \<Rightarrow> None)"

definition detected_ip :: "json list \<Rightarrow> json" where
  \<comment> \<open>the detected IP of a route listing: the \<open>prefsrc\<close> of its last \<open>wlan0\<close> route that has
      one, the empty string when there is none\<close>
  "detected_ip routes =
     (case List.map_filter wlan0_prefsrc routes of [] \<Rightarrow> JStr [] | vs \<Rightarrow> last vs)"

subsection \<open>Capture and upload\<close>

definition capture_image_and_save_to_base64 ::
  "capture_env \<Rightarrow> device_state \<Rightarrow> (exn + string \<times> pil_image) \<times> device_state" where
  "capture_image_and_save_to_base64 env s =
     (case (if picam2 s = None
            then (case new_camera env of Inl e \<Rightarrow> Inl e | Inr h \<Rightarrow> Inr (s\<lparr>picam2 := Some h\<rparr>))
            else Inr s) of
        Inl e \<Rightarrow> (Inl e, s)
      | Inr s1 \<Rightarrow>
          (case (if firstTime s1 = 0
                 then (case getIP env s1 of
                         (Some e, s2) \<Rightarrow> (Some e, s2)
                       | (None, s2) \<Rightarrow> (None, s2\<lparr>firstTime := 1\<rparr>))
                 else (None, s1)) of
             (Some e, s2) \<Rightarrow> (Inl e, s2)
           | (None, s2) \<Rightarrow> (frame env, s2)))"

definition post_content ::
  "device_config \<Rightarrow> capture_env \<Rightarrow> string \<Rightarrow> string \<Rightarrow> device_state \<Rightarrow> exn option \<times> device_state" where
  "post_content cfg env descr base64_image s =
     (let payload = JObj [(''image'', JStr base64_image), (''description'', JStr descr),
                          (''deviceid'', devId s)];
          s' = emit (HttpPost (contentserver_url cfg) payload) s
      in (case post_reply env of Inl e \<Rightarrow> Some e | Inr txt \<Rightarrow> None, s'))"

definition analyze_image_google ::
  "capture_env \<Rightarrow> pil_image \<Rightarrow> device_state \<Rightarrow> (exn + string) \<times> device_state" where
  "analyze_image_google env img s = (gemini env, emit (GenerateContent img) s)"

definition openai_request :: "device_config \<Rightarrow> string \<Rightarrow> effect" where
  \<comment> \<open>the request the device's own \<open>analyze_image\<close> sends\<close>
  "openai_request cfg base64_image =
     HttpPost ''https://api.openai.com/v1/chat/completions''
       (JObj [(''model'', JStr (openai_model_cam4 cfg)),
              (''messages'',
               JArr [JObj [(''role'', JStr ''user''),
                           (''content'',
                            JArr [JObj [(''type'', JStr ''text''),
                                        (''text'', JStr analysis_prompt)],
                                  JObj [(''type'', JStr ''image_url''),
                                        (''image_url'',
                                         JObj [(''url'',
                                                JStr (''data:image/jpeg;base64,'' @ base64_image))])]])]]),
              (''max_tokens'', JInt (max_tokens cfg))])"

definition analyze_image_cam4 ::
  "device_config \<Rightarrow> (json \<Rightarrow> exn + json) \<Rightarrow> string \<Rightarrow> device_state \<Rightarrow> (exn + json) \<times> device_state" where
  \<comment> \<open>the device's own \<open>analyze_image\<close>; \<open>api\<close> is what \<open>requests.post(...).json()\<close> gives\<close>
  "analyze_image_cam4 cfg api base64_image s =
     (api (JStr base64_image), emit (openai_request cfg base64_image) s)"

definition captureImageOpenai ::
  "device_config \<Rightarrow> capture_env \<Rightarrow> device_state \<Rightarrow> exn option \<times> device_state" where
  "captureImageOpenai cfg env s0 =
     (case capture_image_and_save_to_base64 env (s0\<lparr>led_2 := HIGH, led_1 := HIGH\<rparr>) of
        (Inl e, s1) \<Rightarrow> (Some e, s1)
      | (Inr (image_base64, saved_image), s1) \<Rightarrow>
          (case post_content cfg env [] image_base64 (s1\<lparr>led_2 := LOW\<rparr>) of
             (Some e, s2) \<Rightarrow> (None, s2\<lparr>picam2 := None, led_1 := LOW\<rparr>)
           | (None, s2) \<Rightarrow> (None, s2\<lparr>led_1 := LOW\<rparr>)))"

definition captureImageGoogle ::
  "device_config \<Rightarrow> capture_env \<Rightarrow> device_state \<Rightarrow> exn option \<times> device_state" where
  "captureImageGoogle cfg env s0 =
     (case capture_image_and_save_to_base64 env (s0\<lparr>led_2 := HIGH, led_1 := HIGH\<rparr>) of
        (Inl e, s1) \<Rightarrow> (Some e, s1)
      | (Inr (image_base64, saved_image), s1) \<Rightarrow>
          (case analyze_image_google env saved_image (s1\<lparr>led_1 := LOW\<rparr>) of
             (Inl e, s2) \<Rightarrow> (None, s2\<lparr>picam2 := None, led_2 := LOW\<rparr>)
           | (Inr result, s2) \<Rightarrow>
               (case post_content cfg env result image_base64 s2 of
                  (Some e, s3) \<Rightarrow> (None, s3\<lparr>picam2 := None, led_2 := LOW\<rparr>)
                | (None, s3) \<Rightarrow> (None, s3\<lparr>led_2 := LOW\<rparr>))))"

subsection \<open>Button callbacks\<close>

definition buttonCallback ::
  "device_config \<Rightarrow> capture_env \<Rightarrow> device_state \<Rightarrow> exn option \<times> device_state" where
  "buttonCallback cfg env s =
     captureImageOpenai cfg env
       (s\<lparr>led_1 := HIGH, led_2 := LOW, shutdownCounter := shutdown_counter_max cfg\<rparr>)"

definition buttonCallback2 :: "device_state \<Rightarrow> exn option \<times> device_state" where
  "buttonCallback2 s0 =
     (let s = s0\<lparr>led_2 := HIGH, led_1 := HIGH, shutdownCounter := shutdownCounter s0 - 1\<rparr>
      in if shutdownCounter s = 0
         then (None, emit (OsSystem ''sudo shutdown now'') (s\<lparr>led_2 := HIGH, led_1 := HIGH\<rparr>))
         else (None, s))"

definition buttonCallback3 ::
  "device_config \<Rightarrow> capture_env \<Rightarrow> device_state \<Rightarrow> exn option \<times> device_state" where
  "buttonCallback3 cfg env s =
     captureImageGoogle cfg env
       (s\<lparr>led_1 := LOW, led_2 := HIGH, shutdownCounter := shutdown_counter_max cfg\<rparr>)"

text \<open>
  A rising edge on one of the three buttons runs its callback; the capture buttons come
  with what their capture meets outside. The globals keep what a callback wrote, also when
  it raised.
\<close>

datatype event = OpenaiButton capture_env | ShutdownButton | GoogleButton capture_env

fun callback :: "device_config \<Rightarrow> event \<Rightarrow> device_state \<Rightarrow> exn option \<times> device_state" where
  "callback cfg (OpenaiButton env) s = buttonCallback cfg env s"
| "callback cfg ShutdownButton s = buttonCallback2 s"
| "callback cfg (GoogleButton env) s = buttonCallback3 cfg env s"

fun run :: "device_config \<Rightarrow> event list \<Rightarrow> device_state \<Rightarrow> device_state" where
  "run cfg [] s = s"
| "run cfg (ev # evs) s = run cfg evs (snd (callback cfg ev s))"

definition shutdown_requests :: "device_state \<Rightarrow> nat" where
  \<comment> \<open>how often \<open>os.system("sudo shutdown now")\<close> was issued\<close>
  "shutdown_requests s = length (filter (\<lambda>e. e = OsSystem ''sudo shutdown now'') (effects s))"

fun posted_payloads :: "effect list \<Rightarrow> json list" where
  \<comment> \<open>the bodies of the HTTP posts in a trace\<close>
  "posted_payloads [] = []"
| "posted_payloads (HttpPost url p # es) = p # posted_payloads es"
| "posted_payloads (e # es) = posted_payloads es"

definition id_settled :: "json \<Rightarrow> device_state \<Rightarrow> bool" where
  \<comment> \<open>the device id has been resolved to \<open>d\<close> and every upload so far carried it\<close>
  "id_settled d s =
     (firstTime s \<noteq> 0 \<and> devId s = d
      \<and> list_all (\<lambda>p. subscript p ''deviceid'' = Inr d) (posted_payloads (effects s)))"

section \<open>Sample inputs\<close>

definition row_a :: content_row where
  "row_a = \<lparr>id_col = 1, image = Some ''aGk='', description = Some ''desk lamp'',
            timestamp = ''2024-05-01 10:00:00'', deviceid = Some ''10.0.0.7''\<rparr>"

definition row_b :: content_row where
  "row_b = \<lparr>id_col = 2, image = Some ''aGk='', description = None,
            timestamp = ''2024-05-01 09:00:00'', deviceid = Some ''10.0.0.7''\<rparr>"

definition env0 :: server_env where
  \<comment> \<open>a server whose vision provider cannot be reached\<close>
  "env0 = \<lparr>openai_model = ''gpt-4o'', vision_api = (\<lambda>img. Inl RequestException),
           now = ''2024-05-01 10:00:00'', rowid_pick = None,
           chat_api = (\<lambda>r. Inr (Some ''a lamp'')), id_eq = decimal_eq\<rparr>"

definition empty_dates :: "(string \<times> string) list" where
  \<comment> \<open>the date fields of the page's form, left blank\<close>
  "empty_dates = [(''start_date'', ''''), (''start_time'', ''''),
                  (''end_date'', ''''), (''end_time'', '''')]"

definition env1 :: server_env where
  \<comment> \<open>a server whose vision provider answers with a description\<close>
  "env1 = \<lparr>openai_model = ''gpt-4o'',
           vision_api = (\<lambda>img. Inr (JObj [(''choices'',
               JArr [JObj [(''message'', JObj [(''content'', JStr ''dog on sofa'')])]])])),
           now = ''2024-05-01 10:00:00'', rowid_pick = None,
           chat_api = (\<lambda>r. Inr (Some ''a lamp'')), id_eq = decimal_eq\<rparr>"

definition env2 :: server_env where
  \<comment> \<open>a server whose vision provider answers with an error body\<close>
  "env2 = \<lparr>openai_model = ''gpt-4o'',
           vision_api = (\<lambda>img. Inr (JObj [(''error'',
               JObj [(''message'', JStr ''Incorrect API key'')])])),
           now = ''2024-05-01 10:00:00'', rowid_pick = None,
           chat_api = (\<lambda>r. Inr (Some ''a lamp'')), id_eq = decimal_eq\<rparr>"

definition upload_blank :: json where
  "upload_blank = JObj [(''image'', JStr ''aGk=''), (''description'', JStr ''''),
                        (''deviceid'', JStr ''10.0.0.7'')]"

definition upload_cat :: json where
  "upload_cat = JObj [(''image'', JStr ''aGk=''), (''description'', JStr ''cat''),
                      (''deviceid'', JStr ''10.0.0.7'')]"

definition delete_two :: request where
  "delete_two = \<lparr>req_method = POST, form = (''content_id'', ''2'') # empty_dates, args = []\<rparr>"


definition cfg0 :: device_config where
  "cfg0 = \<lparr>shutdown_counter_max = 3, default_device_id = ''cam-01'',
           contentserver_url = ''http://192.168.1.10:5000/add_content'',
           openai_model_cam4 = ''gpt-4o'', max_tokens = 300\<rparr>"

definition cap_ok :: capture_env where
  \<comment> \<open>a capture on a device without a wlan0 route, everything else working\<close>
  "cap_ok = \<lparr>new_camera = Inr 7,
              ip_route = Inr (JArr [JObj [(''dst'', JStr ''default''), (''dev'', JStr ''eth0''),
                                         (''prefsrc'', JStr ''192.168.1.20'')]]),
              frame = Inr (''aGk='', 1), gemini = Inr ''a desk'', post_reply = Inr ''ok''\<rparr>"

definition cap_no_frame :: capture_env where
  \<comment> \<open>a capture whose camera opens but gives no frame\<close>
  "cap_no_frame = cap_ok\<lparr>frame := Inl CameraError\<rparr>"

definition cap_no_post :: capture_env where
  "cap_no_post = cap_ok\<lparr>post_reply := Inl RequestException\<rparr>"

section \<open>Range query\<close>

text \<open>
  C2: for every table and every pair of bounds, the range query used by \<open>/contents\<close> and
  \<open>/query\<close> returns exactly the rows with \<open>a \<le> timestamp \<le> b\<close> (as a multiset, so
  neither a row is lost nor one repeated), in ascending order of timestamp, and the empty
  list when no row qualifies, in particular on the empty table.
\<close>

theorem range_query_exact:
  "mset (select_between a b t) = filter_mset (\<lambda>r. a \<le> timestamp r \<and> timestamp r \<le> b) (mset t)
   \<and> sorted (map timestamp (select_between a b t))
   \<and> ((\<forall>r\<in>set t. \<not> (a \<le> timestamp r \<and> timestamp r \<le> b)) \<longrightarrow> select_between a b t = [])
   \<and> select_between a b [] = []"
  by (simp add: select_between_def filter_empty_conv)

theorem range_query_exact_witness:
  "select_between ''2024-05-02 00:00:00'' ''2024-05-02 23:59:59'' [row_a, row_b] = []
   \<and> mset (select_between ''2024-05-01 00:00:00'' ''2024-05-01 09:30:00'' [row_a, row_b])
       = {#row_b#}"
proof -
  have none: "\<forall>r\<in>set [row_a, row_b].
      \<not> (''2024-05-02 00:00:00'' \<le> timestamp r \<and> timestamp r \<le> ''2024-05-02 23:59:59'')"
    by (simp add: row_a_def row_b_def)
  have "select_between ''2024-05-02 00:00:00'' ''2024-05-02 23:59:59'' [row_a, row_b] = []"
    using none
      range_query_exact [of "''2024-05-02 00:00:00''" "''2024-05-02 23:59:59''" "[row_a, row_b]"]
    by blast
  moreover have "mset (select_between ''2024-05-01 00:00:00'' ''2024-05-01 09:30:00'' [row_a, row_b])
       = {#row_b#}"
    using range_query_exact [of "''2024-05-01 00:00:00''" "''2024-05-01 09:30:00''" "[row_a, row_b]"]
    by (simp add: row_a_def row_b_def)
  ultimately show ?thesis by simp
qed

section \<open>The management page\<close>

lemma delete_selected_filter:
  "delete_selected eq ids t = filter (\<lambda>r. \<forall>c\<in>set ids. \<not> eq c (id_col r)) t"
  unfolding delete_selected_def
proof (induction ids arbitrary: t)
  case Nil
  then show ?case by simp
next
  case (Cons c cs)
  then show ?case by (simp add: delete_id_def conj_commute)
qed

text \<open>
  C8, as the code has it: a POST to \<open>/contents\<close> that carries the four date fields deletes
  the rows whose id matches a listed \<open>content_id\<close> and then renders the date-filtered rows
  of what is left, whatever the date fields hold; a POST that lacks a date field raises
  before anything is deleted; only a GET renders the full table.
\<close>

theorem manage_contents_post_filters:
  "(date_fields f = Inr (sd, st, ed, et) \<longrightarrow>
      manage_contents env \<lparr>req_method = POST, form = f, args = ar\<rparr> t =
        (Inr \<lparr>contents = select_between (sd @ '' '' @ st) (ed @ '' '' @ et)
                 (filter (\<lambda>r. \<forall>c\<in>set (getlist f ''content_id''). \<not> id_eq env c (id_col r)) t),
              include_images = (args_get ar ''i'' ''0'' = ''1'')\<rparr>,
         filter (\<lambda>r. \<forall>c\<in>set (getlist f ''content_id''). \<not> id_eq env c (id_col r)) t))
   \<and> (date_fields f = Inl e \<longrightarrow>
      manage_contents env \<lparr>req_method = POST, form = f, args = ar\<rparr> t = (Inl e, t))
   \<and> manage_contents env \<lparr>req_method = GET, form = f, args = ar\<rparr> t =
        (Inr \<lparr>contents = t, include_images = (args_get ar ''i'' ''0'' = ''1'')\<rparr>, t)"
  by (simp add: manage_contents_def and_then_def delete_selected_filter select_all_def)

theorem manage_contents_post_filters_witness:
  "date_fields ((''content_id'', ''1'') # empty_dates) = Inr ('''', '''', '''', '''')
   \<and> manage_contents env0
         \<lparr>req_method = POST, form = (''content_id'', ''1'') # empty_dates, args = [(''i'', ''1'')]\<rparr>
         [row_a, row_b]
       = (Inr \<lparr>contents = [], include_images = True\<rparr>, [row_b])"
proof -
  have d: "date_fields ((''content_id'', ''1'') # empty_dates) = Inr ('''', '''', '''', '''')"
    by (simp add: date_fields_def form_item_def and_then_def empty_dates_def)
  have e1: "decimal_eq ''1'' 1" "\<not> decimal_eq ''1'' 2"
    by code_simp+
  show ?thesis
    using d e1
      manage_contents_post_filters [of "(''content_id'', ''1'') # empty_dates" "''''" "''''" "''''"
        "''''" env0 "[(''i'', ''1'')]" "[row_a, row_b]"]
    by (simp add: getlist_def empty_dates_def env0_def row_a_def row_b_def select_between_def
        args_get_def)
qed

text \<open>
  The claim as stated fails: with the date fields left blank the page shows no row, not
  the full table; with the date fields absent the request raises and the selected row
  stays.
\<close>

theorem manage_contents_post_counterexample:
  "manage_contents env0 \<lparr>req_method = POST, form = empty_dates, args = []\<rparr> [row_a, row_b]
     = (Inr \<lparr>contents = [], include_images = False\<rparr>, [row_a, row_b])
   \<and> manage_contents env0 \<lparr>req_method = POST, form = [(''content_id'', ''1'')], args = []\<rparr>
       [row_a, row_b]
     = (Inl BadRequestKeyError, [row_a, row_b])"
  by (simp add: manage_contents_def and_then_def date_fields_def form_item_def getlist_def
      delete_selected_def select_between_def row_a_def row_b_def env0_def empty_dates_def
      args_get_def)

section \<open>Uploads\<close>

lemma content_of_env1:
  "content_of (JObj [(''choices'',
      JArr [JObj [(''message'', JObj [(''content'', JStr ''dog on sofa'')])]])])
     = Inr (JStr ''dog on sofa'')"
  by (simp add: content_of_def and_then_def dict_get_def)

lemma add_env1_blank:
  "next_rowid None t = Inr n \<Longrightarrow>
   table (add_content env1 upload_blank t)
     = t @ [\<lparr>id_col = n, image = Some ''aGk='', description = Some ''dog on sofa'',
             timestamp = ''2024-05-01 10:00:00'', deviceid = Some ''10.0.0.7''\<rparr>]"
  by (simp add: add_content_def insert_content_def and_then_def env1_def upload_blank_def
      analyze_image_def dict_get_def content_of_def)

text \<open>
  C1, as the code has it: for an upload with an image, (1) when the provider call itself
  raises, no row is written and the exception leaves the handler, so no 201 is sent;
  (2) when the provider answers with a body in which \<open>choices[0].message.content\<close> cannot be
  read, no row is written and the reply is 201 "No Content added"; (3) when the content is
  read and the values can be stored, exactly one row is appended, with the provider's
  content as description and the server's time as timestamp, and the reply is 201 "Content
  added successfully". None of this looks at the uploaded description.
\<close>

theorem add_content_outcomes:
  "subscript content_data ''image'' = Inr img \<longrightarrow>
     (analyze_image env img = Inl e \<longrightarrow>
        reply (add_content env content_data t) = Inl e
        \<and> table (add_content env content_data t) = t)
   \<and> (analyze_image env img = Inr temp \<and> content_of temp = Inl e' \<longrightarrow>
        reply (add_content env content_data t)
          = Inr \<lparr>status = 201, body = JObj [(''message'', JStr ''No Content added'')]\<rparr>
        \<and> table (add_content env content_data t) = t)
   \<and> (analyze_image env img = Inr temp \<and> content_of temp = Inr descr
        \<and> get_default content_data ''deviceid'' (JStr ''Unknown'') = Inr dev
        \<and> sql_bind img = Inr i \<and> sql_bind descr = Inr d \<and> sql_bind dev = Inr v
        \<and> next_rowid (rowid_pick env) t = Inr n \<longrightarrow>
        reply (add_content env content_data t)
          = Inr \<lparr>status = 201, body = JObj [(''message'', JStr ''Content added successfully'')]\<rparr>
        \<and> table (add_content env content_data t)
          = t @ [\<lparr>id_col = n, image = i, description = d, timestamp = now env, deviceid = v\<rparr>])"
  by (simp add: add_content_def insert_content_def and_then_def)

theorem add_content_outcomes_witness:
  "reply (add_content env0 upload_blank [row_a]) = Inl RequestException
   \<and> table (add_content env0 upload_blank [row_a]) = [row_a]
   \<and> reply (add_content env2 upload_blank [row_a])
       = Inr \<lparr>status = 201, body = JObj [(''message'', JStr ''No Content added'')]\<rparr>
   \<and> table (add_content env2 upload_blank [row_a]) = [row_a]
   \<and> reply (add_content env1 upload_blank [row_a])
       = Inr \<lparr>status = 201, body = JObj [(''message'', JStr ''Content added successfully'')]\<rparr>
   \<and> table (add_content env1 upload_blank [row_a])
       = [row_a, \<lparr>id_col = 2, image = Some ''aGk='', description = Some ''dog on sofa'',
                  timestamp = ''2024-05-01 10:00:00'', deviceid = Some ''10.0.0.7''\<rparr>]"
proof -
  have img: "subscript upload_blank ''image'' = Inr (JStr ''aGk='')"
    by (simp add: upload_blank_def dict_get_def)
  have a0: "analyze_image env0 (JStr ''aGk='') = Inl RequestException"
    by (simp add: analyze_image_def env0_def)
  have a2: "analyze_image env2 (JStr ''aGk='')
              = Inr (JObj [(''error'', JObj [(''message'', JStr ''Incorrect API key'')])])"
    "content_of (JObj [(''error'', JObj [(''message'', JStr ''Incorrect API key'')])])
       = Inl KeyError"
    by (simp_all add: analyze_image_def env2_def content_of_def and_then_def dict_get_def)
  have a1: "analyze_image env1 (JStr ''aGk='')
              = Inr (JObj [(''choices'',
                  JArr [JObj [(''message'', JObj [(''content'', JStr ''dog on sofa'')])]])])"
    "get_default upload_blank ''deviceid'' (JStr ''Unknown'') = Inr (JStr ''10.0.0.7'')"
    "next_rowid (rowid_pick env1) [row_a] = Inr 2"
    by (simp_all add: analyze_image_def env1_def upload_blank_def dict_get_def next_rowid_def
        row_a_def max_rowid_def)
  show ?thesis
    using img a0 a1 a2 content_of_env1
      add_content_outcomes [of upload_blank "JStr ''aGk=''" env0 RequestException "[row_a]"]
      add_content_outcomes [of upload_blank "JStr ''aGk=''" env2 _ "[row_a]" _ KeyError]
      add_content_outcomes [of upload_blank "JStr ''aGk=''" env1 _ "[row_a]" _ _
        "JStr ''dog on sofa''" "JStr ''10.0.0.7''" "Some ''aGk=''" "Some ''dog on sofa''"
        "Some ''10.0.0.7''" 2]
    by (simp add: env1_def)
qed

text \<open>
  The claim as stated fails: an upload with a blank description whose provider call raises
  is not answered with 201 "No Content added"; the exception leaves the handler.
\<close>

theorem add_content_raise_counterexample:
  "reply (add_content env0 upload_blank []) = Inl RequestException
   \<and> reply (add_content env0 upload_blank [])
       \<noteq> Inr \<lparr>status = 201, body = JObj [(''message'', JStr ''No Content added'')]\<rparr>
   \<and> table (add_content env0 upload_blank []) = []"
  by (simp add: add_content_def env0_def upload_blank_def analyze_image_def dict_get_def)

text \<open>
  C3, as the code has it: the server calls its vision provider on every upload that has an
  image, whatever the description field holds; two uploads that agree on image and device
  id get the same result, so the uploaded description is never read; and the description
  of a row that is written is the provider's content.
\<close>

theorem add_content_description_unused:
  "dict_get kvs ''image'' = Some img \<longrightarrow>
     vision_calls (add_content env (JObj kvs) t) = [img]
   \<and> (dict_get kvs' ''image'' = Some img
        \<and> dict_get kvs' ''deviceid'' = dict_get kvs ''deviceid'' \<longrightarrow>
        add_content env (JObj kvs') t = add_content env (JObj kvs) t)
   \<and> (table (add_content env (JObj kvs) t) \<noteq> t \<longrightarrow>
        (\<exists>temp descr. analyze_image env img = Inr temp \<and> content_of temp = Inr descr
           \<and> sql_bind descr
               = Inr (description (last (table (add_content env (JObj kvs) t))))))"
  by (auto simp: add_content_def insert_content_def and_then_def split: sum.splits)

theorem add_content_description_unused_witness:
  "vision_calls (add_content env1 upload_cat []) = [JStr ''aGk='']
   \<and> add_content env1 upload_blank [] = add_content env1 upload_cat []
   \<and> sql_bind (JStr ''dog on sofa'')
       = Inr (description (last (table (add_content env1 upload_cat []))))"
proof -
  have h:
    "dict_get [(''image'', JStr ''aGk=''), (''description'', JStr ''cat''),
               (''deviceid'', JStr ''10.0.0.7'')] ''image'' = Some (JStr ''aGk='')"
    "dict_get [(''image'', JStr ''aGk=''), (''description'', JStr ''''),
               (''deviceid'', JStr ''10.0.0.7'')] ''image'' = Some (JStr ''aGk='')"
    "dict_get [(''image'', JStr ''aGk=''), (''description'', JStr ''''),
               (''deviceid'', JStr ''10.0.0.7'')] ''deviceid''
       = dict_get [(''image'', JStr ''aGk=''), (''description'', JStr ''cat''),
                   (''deviceid'', JStr ''10.0.0.7'')] ''deviceid''"
    by (simp_all add: dict_get_def)
  have ne: "table (add_content env1 upload_cat []) \<noteq> []"
    by (simp add: add_content_def insert_content_def and_then_def env1_def upload_cat_def
        analyze_image_def dict_get_def content_of_def next_rowid_def)
  have a1: "analyze_image env1 (JStr ''aGk='')
              = Inr (JObj [(''choices'',
                  JArr [JObj [(''message'', JObj [(''content'', JStr ''dog on sofa'')])]])])"
    by (simp add: analyze_image_def env1_def)
  show ?thesis
    using h ne a1 content_of_env1
      add_content_description_unused
        [of "[(''image'', JStr ''aGk=''), (''description'', JStr ''cat''),
              (''deviceid'', JStr ''10.0.0.7'')]"
          "JStr ''aGk=''" env1 "[]"
          "[(''image'', JStr ''aGk=''), (''description'', JStr ''''),
            (''deviceid'', JStr ''10.0.0.7'')]"]
    by (auto simp: upload_cat_def upload_blank_def)
qed

text \<open>
  The claim as stated fails: an upload whose description is "cat" is stored with the
  provider's description, and the provider was called for it.
\<close>

theorem add_content_description_counterexample:
  "table (add_content env1 upload_cat [])
     = [\<lparr>id_col = 1, image = Some ''aGk='', description = Some ''dog on sofa'',
         timestamp = ''2024-05-01 10:00:00'', deviceid = Some ''10.0.0.7''\<rparr>]
   \<and> vision_calls (add_content env1 upload_cat []) = [JStr ''aGk='']"
  by (simp add: add_content_def insert_content_def and_then_def env1_def upload_cat_def
      analyze_image_def dict_get_def content_of_def next_rowid_def)

section \<open>Row ids\<close>

lemma Max_less_all: "r \<in> set t \<Longrightarrow> id_col r < Max (set (map id_col t)) + 1"
proof -
  assume "r \<in> set t"
  then have "id_col r \<le> Max (id_col ` set t)"
    by (intro Max_ge) auto
  then show ?thesis by simp
qed

lemma next_rowid_fresh: "next_rowid pick t = Inr n \<Longrightarrow> n \<notin> set (map id_col t)"
  unfolding next_rowid_def
  by (auto simp: Let_def dest: Max_less_all split: if_splits option.splits)

lemma next_rowid_above:
  "\<forall>r\<in>set t. id_col r < max_rowid \<Longrightarrow> next_rowid pick t = Inr n \<Longrightarrow>
     n = (if t = [] then 1 else Max (set (map id_col t)) + 1) \<and> (\<forall>r\<in>set t. id_col r < n)"
  unfolding next_rowid_def
  by (auto simp: Let_def dest: Max_less_all split: if_splits option.splits)

lemma add_content_table:
  "table (add_content env cd t) = t \<or>
   (\<exists>n i d v. next_rowid (rowid_pick env) t = Inr n \<and>
      table (add_content env cd t)
        = t @ [\<lparr>id_col = n, image = i, description = d, timestamp = now env, deviceid = v\<rparr>])"
  by (auto simp: add_content_def insert_content_def and_then_def split: sum.splits)

lemma add_content_ok_table:
  "reply (add_content env cd t)
     = Inr \<lparr>status = 201, body = JObj [(''message'', JStr ''Content added successfully'')]\<rparr> \<Longrightarrow>
   (\<exists>n i d v. next_rowid (rowid_pick env) t = Inr n \<and>
      table (add_content env cd t)
        = t @ [\<lparr>id_col = n, image = i, description = d, timestamp = now env, deviceid = v\<rparr>])"
  by (auto simp: add_content_def insert_content_def and_then_def split: sum.splits)

text \<open>
  C6, as the code has it: a successful insert into a table whose ids are all below the
  largest 64-bit integer appends one row whose id is 1 in an empty table and else one more
  than the largest id stored, so strictly greater than every id the table holds at that
  moment; inserts and deletes keep the stored ids pairwise distinct. Nothing is said about
  ids of rows deleted before.
\<close>

theorem insert_id_above_stored:
  "((\<forall>r\<in>set t. id_col r < max_rowid)
      \<and> reply (add_content env cd t)
          = Inr \<lparr>status = 201, body = JObj [(''message'', JStr ''Content added successfully'')]\<rparr> \<longrightarrow>
      (\<exists>row. table (add_content env cd t) = t @ [row]
         \<and> id_col row = (if t = [] then 1 else Max (set (map id_col t)) + 1)
         \<and> (\<forall>r\<in>set t. id_col r < id_col row)))
   \<and> (distinct (map id_col t) \<longrightarrow>
        distinct (map id_col (table (add_content env cd t)))
        \<and> distinct (map id_col (delete_selected eq ids t)))"
proof (intro conjI impI)
  assume a: "(\<forall>r\<in>set t. id_col r < max_rowid)
      \<and> reply (add_content env cd t)
          = Inr \<lparr>status = 201, body = JObj [(''message'', JStr ''Content added successfully'')]\<rparr>"
  then obtain n i d v where n: "next_rowid (rowid_pick env) t = Inr n"
    and t': "table (add_content env cd t)
      = t @ [\<lparr>id_col = n, image = i, description = d, timestamp = now env, deviceid = v\<rparr>]"
    using add_content_ok_table by blast
  from a n
  have "n = (if t = [] then 1 else Max (set (map id_col t)) + 1) \<and> (\<forall>r\<in>set t. id_col r < n)"
    using next_rowid_above by blast
  with t' show "\<exists>row. table (add_content env cd t) = t @ [row]
         \<and> id_col row = (if t = [] then 1 else Max (set (map id_col t)) + 1)
         \<and> (\<forall>r\<in>set t. id_col r < id_col row)"
    by simp
next
  assume d: "distinct (map id_col t)"
  show "distinct (map id_col (table (add_content env cd t)))"
    using add_content_table [of env cd t] d next_rowid_fresh by auto
next
  assume d: "distinct (map id_col t)"
  show "distinct (map id_col (delete_selected eq ids t))"
    using d by (simp add: delete_selected_filter distinct_map_filter)
qed

theorem insert_id_above_stored_witness:
  "table (add_content env1 upload_blank [row_a, row_b])
     = [row_a, row_b, \<lparr>id_col = 3, image = Some ''aGk='', description = Some ''dog on sofa'',
             timestamp = ''2024-05-01 10:00:00'', deviceid = Some ''10.0.0.7''\<rparr>]
   \<and> distinct (map id_col (delete_selected decimal_eq [''2''] [row_a, row_b]))"
proof -
  have b: "\<forall>r\<in>set [row_a, row_b]. id_col r < max_rowid"
    by (simp add: row_a_def row_b_def max_rowid_def)
  have n: "next_rowid None [row_a, row_b] = Inr 3"
    by (simp add: next_rowid_def row_a_def row_b_def max_rowid_def)
  have r: "reply (add_content env1 upload_blank [row_a, row_b])
          = Inr \<lparr>status = 201, body = JObj [(''message'', JStr ''Content added successfully'')]\<rparr>"
    using n by (simp add: add_content_def insert_content_def and_then_def env1_def
        upload_blank_def analyze_image_def dict_get_def content_of_def)
  have d: "distinct (map id_col [row_a, row_b])"
    by (simp add: row_a_def row_b_def)
  have t: "table (add_content env1 upload_blank [row_a, row_b])
     = [row_a, row_b, \<lparr>id_col = 3, image = Some ''aGk='', description = Some ''dog on sofa'',
             timestamp = ''2024-05-01 10:00:00'', deviceid = Some ''10.0.0.7''\<rparr>]"
    using add_env1_blank [OF n] by simp
  show ?thesis
    using b r d t
      insert_id_above_stored [of "[row_a, row_b]" env1 upload_blank decimal_eq "[''2'']"]
    by simp
qed

text \<open>
  The claim as stated fails: after two uploads (ids 1 and 2) and the deletion of row 2, the
  next upload is given id 2 again.
\<close>

lemma dec_eq_2: "decimal_eq ''2'' 1 = False" "decimal_eq ''2'' 2 = True"
  by code_simp+

theorem insert_id_reused_counterexample:
  "map id_col (table (add_content env1 upload_blank (table (add_content env1 upload_blank []))))
     = [1, 2]
   \<and> map id_col (snd (manage_contents env1 delete_two
        (table (add_content env1 upload_blank (table (add_content env1 upload_blank []))))))
     = [1]
   \<and> map id_col (table (add_content env1 upload_blank (snd (manage_contents env1 delete_two
        (table (add_content env1 upload_blank (table (add_content env1 upload_blank []))))))))
     = [1, 2]"
proof -
  have n1: "next_rowid None [] = Inr 1"
    by (simp add: next_rowid_def)
  have n2: "\<And>i d ts v. next_rowid None
      [\<lparr>id_col = 1, image = i, description = d, timestamp = ts, deviceid = v\<rparr>] = Inr 2"
    by (simp add: next_rowid_def max_rowid_def)
  have t1: "table (add_content env1 upload_blank [])
     = [\<lparr>id_col = 1, image = Some ''aGk='', description = Some ''dog on sofa'',
         timestamp = ''2024-05-01 10:00:00'', deviceid = Some ''10.0.0.7''\<rparr>]"
    using add_env1_blank [OF n1] by simp
  have t2: "table (add_content env1 upload_blank (table (add_content env1 upload_blank [])))
     = [\<lparr>id_col = 1, image = Some ''aGk='', description = Some ''dog on sofa'',
         timestamp = ''2024-05-01 10:00:00'', deviceid = Some ''10.0.0.7''\<rparr>,
        \<lparr>id_col = 2, image = Some ''aGk='', description = Some ''dog on sofa'',
         timestamp = ''2024-05-01 10:00:00'', deviceid = Some ''10.0.0.7''\<rparr>]"
    unfolding t1 using add_env1_blank [OF n2] by simp
  have t3: "snd (manage_contents env1 delete_two
        (table (add_content env1 upload_blank (table (add_content env1 upload_blank [])))))
     = [\<lparr>id_col = 1, image = Some ''aGk='', description = Some ''dog on sofa'',
         timestamp = ''2024-05-01 10:00:00'', deviceid = Some ''10.0.0.7''\<rparr>]"
    unfolding t2
    by (simp add: manage_contents_def delete_two_def date_fields_def form_item_def and_then_def
        empty_dates_def getlist_def delete_selected_def delete_id_def env1_def dec_eq_2)
  show ?thesis
    unfolding t3 unfolding t2 using add_env1_blank [OF n2] by simp
qed

section \<open>Questions\<close>




section \<open>What a capture leaves unchanged\<close>

lemma getIP_loop_fields:
  "getIP_loop rs s = (r, s') \<Longrightarrow>
     shutdownCounter s' = shutdownCounter s \<and> effects s' = effects s \<and> picam2 s' = picam2 s
     \<and> devId s' = devId s \<and> firstTime s' = firstTime s"
proof (induction rs arbitrary: s)
  case Nil
  then show ?case by simp
next
  case (Cons a rs)
  then show ?case
    by (auto split: sum.splits option.splits)
qed

lemma getIP_fields:
  "getIP env s = (r, s') \<Longrightarrow>
     shutdownCounter s' = shutdownCounter s \<and> effects s' = effects s @ [OsPopen ''ip -j -4 route'']
     \<and> picam2 s' = picam2 s \<and> firstTime s' = firstTime s"
  unfolding getIP_def Let_def
  by (auto simp: emit_def split: sum.splits prod.splits option.splits dest!: getIP_loop_fields)

lemma capture_fields:
  "capture_image_and_save_to_base64 env s = (r, s') \<Longrightarrow>
     shutdownCounter s' = shutdownCounter s
     \<and> (effects s' = effects s \<or> effects s' = effects s @ [OsPopen ''ip -j -4 route''])
     \<and> (picam2 s \<noteq> None \<longrightarrow> picam2 s' = picam2 s)"
  unfolding capture_image_and_save_to_base64_def
  by (auto split: sum.splits prod.splits option.splits if_splits dest!: getIP_fields)

lemma capture_ok_result:
  "capture_image_and_save_to_base64 env s = (Inr v, s') \<Longrightarrow> frame env = Inr v"
  unfolding capture_image_and_save_to_base64_def
  by (auto split: sum.splits prod.splits option.splits if_splits)

lemma buttonCallback2_counter:
  "shutdownCounter (snd (buttonCallback2 s)) = shutdownCounter s - 1"
  by (simp add: buttonCallback2_def Let_def emit_def)

lemma buttonCallback2_requests:
  "shutdown_requests (snd (buttonCallback2 s))
     = shutdown_requests s + (if shutdownCounter s = 1 then 1 else 0)"
  by (simp add: buttonCallback2_def Let_def emit_def shutdown_requests_def)

lemma post_content_fields:
  "post_content cfg env d b s = (r, s') \<Longrightarrow>
     shutdownCounter s' = shutdownCounter s
     \<and> effects s' = effects s @ [HttpPost (contentserver_url cfg)
           (JObj [(''image'', JStr b), (''description'', JStr d), (''deviceid'', devId s)])]
     \<and> devId s' = devId s \<and> firstTime s' = firstTime s \<and> picam2 s' = picam2 s"
  by (auto simp: post_content_def Let_def emit_def)

lemma captureImageOpenai_counter:
  "shutdownCounter (snd (captureImageOpenai cfg env s)) = shutdownCounter s
   \<and> shutdown_requests (snd (captureImageOpenai cfg env s)) = shutdown_requests s"
  unfolding captureImageOpenai_def shutdown_requests_def
  by (auto split: prod.splits sum.splits option.splits
      dest!: capture_fields post_content_fields)

lemma captureImageGoogle_counter:
  "shutdownCounter (snd (captureImageGoogle cfg env s)) = shutdownCounter s
   \<and> shutdown_requests (snd (captureImageGoogle cfg env s)) = shutdown_requests s"
  unfolding captureImageGoogle_def shutdown_requests_def analyze_image_google_def
  by (auto simp: emit_def split: prod.splits sum.splits option.splits
      dest!: capture_fields post_content_fields)

lemma shutdown_requests_prepared:
  "shutdown_requests (s\<lparr>led_1 := a, led_2 := b, shutdownCounter := c\<rparr>) = shutdown_requests s"
  by (simp add: shutdown_requests_def)

lemma capture_button_resets:
  "ev \<noteq> ShutdownButton \<Longrightarrow>
     shutdownCounter (snd (callback cfg ev s)) = shutdown_counter_max cfg
     \<and> shutdown_requests (snd (callback cfg ev s)) = shutdown_requests s"
  by (cases ev)
    (simp_all add: buttonCallback_def buttonCallback3_def captureImageOpenai_counter
      captureImageGoogle_counter shutdown_requests_prepared)

lemma shutdown_presses:
  "shutdown_requests (run cfg (replicate n ShutdownButton) s)
     = shutdown_requests s + (if 0 < shutdownCounter s \<and> shutdownCounter s \<le> int n then 1 else 0)
   \<and> shutdownCounter (run cfg (replicate n ShutdownButton) s) = shutdownCounter s - int n"
proof (induction n arbitrary: s)
  case 0
  then show ?case by simp
next
  case (Suc n)
  show ?case
    by (simp add: Suc buttonCallback2_counter buttonCallback2_requests)
qed

section \<open>Shutdown counter\<close>

text \<open>
  C4: with the counter's maximum configured to 3, one or two presses of the shutdown button
  issue no shutdown command, the third press issues exactly one, and any number of further
  presses issue no second one; a press of a capture button (either of them, whatever its
  capture meets) after the first shutdown press sets the counter back to 3, so that two
  more shutdown presses issue nothing and the third of them, the fourth in all, issues the
  command.
\<close>

theorem shutdown_after_three_presses:
  "(let c = cfg\<lparr>shutdown_counter_max := 3\<rparr>; s0 = initial_state c in
      shutdown_requests (run c [ShutdownButton] s0) = 0
    \<and> shutdown_requests (run c [ShutdownButton, ShutdownButton] s0) = 0
    \<and> shutdown_requests (run c [ShutdownButton, ShutdownButton, ShutdownButton] s0) = 1
    \<and> (\<forall>n. shutdown_requests (run c (replicate (3 + n) ShutdownButton) s0) = 1)
    \<and> (\<forall>env. shutdown_requests
                 (run c [ShutdownButton, OpenaiButton env, ShutdownButton, ShutdownButton] s0) = 0
             \<and> shutdown_requests
                 (run c [ShutdownButton, OpenaiButton env, ShutdownButton, ShutdownButton,
                         ShutdownButton] s0) = 1
             \<and> shutdown_requests
                 (run c [ShutdownButton, GoogleButton env, ShutdownButton, ShutdownButton] s0) = 0
             \<and> shutdown_requests
                 (run c [ShutdownButton, GoogleButton env, ShutdownButton, ShutdownButton,
                         ShutdownButton] s0) = 1))"
proof -
  define c where "c = cfg\<lparr>shutdown_counter_max := 3\<rparr>"
  define s0 where "s0 = initial_state c"
  have init: "shutdownCounter s0 = 3" "shutdown_requests s0 = 0"
    by (simp_all add: s0_def c_def initial_state_def shutdown_requests_def)
  have mx: "shutdown_counter_max c = 3"
    by (simp add: c_def)
  have many: "shutdown_requests (run c (replicate (3 + n) ShutdownButton) s0) = 1" for n
    using shutdown_presses [of c "3 + n" s0] by (simp add: init)
  have few: "shutdown_requests (run c [ShutdownButton] s0) = 0"
    "shutdown_requests (run c [ShutdownButton, ShutdownButton] s0) = 0"
    "shutdown_requests (run c [ShutdownButton, ShutdownButton, ShutdownButton] s0) = 1"
    by (simp_all add: buttonCallback2_counter buttonCallback2_requests init)
  have between:
    "shutdown_requests (run c [ShutdownButton, ev, ShutdownButton, ShutdownButton] s0) = 0
     \<and> shutdown_requests
         (run c [ShutdownButton, ev, ShutdownButton, ShutdownButton, ShutdownButton] s0) = 1"
    if "ev \<noteq> ShutdownButton" for ev
    using capture_button_resets [OF that, of c "snd (buttonCallback2 s0)"]
    by (simp add: buttonCallback2_counter buttonCallback2_requests init mx)
  show ?thesis
    unfolding Let_def c_def [symmetric] s0_def [symmetric]
    using many few between [of "OpenaiButton env" for env] between [of "GoogleButton env" for env]
    by simp
qed

theorem shutdown_after_three_presses_witness:
  "shutdown_requests (run cfg0 [ShutdownButton, ShutdownButton] (initial_state cfg0)) = 0
   \<and> shutdown_requests (run cfg0 [ShutdownButton, ShutdownButton, ShutdownButton] (initial_state cfg0)) = 1
   \<and> shutdown_requests (run cfg0 [ShutdownButton, OpenaiButton cap_ok, ShutdownButton, ShutdownButton] (initial_state cfg0)) = 0
   \<and> shutdown_requests (run cfg0 [ShutdownButton, OpenaiButton cap_ok, ShutdownButton, ShutdownButton, ShutdownButton] (initial_state cfg0)) = 1"
proof -
  have "cfg0\<lparr>shutdown_counter_max := 3\<rparr> = cfg0"
    by (simp add: cfg0_def)
  then show ?thesis
    using shutdown_after_three_presses [of cfg0] by (simp add: Let_def)
qed

section \<open>Exceptions on the capture path\<close>

text \<open>
  C5, as the code has it: in \<open>captureImageOpenai\<close> and \<open>captureImageGoogle\<close> the call of
  \<open>capture_image_and_save_to_base64\<close> stands before the \<open>try\<close>. When that call returns,
  the callback returns normally, and an exception of the analysis or the upload is caught
  and sets the camera handle to \<open>None\<close>. When that call raises (camera start, IP lookup,
  frame capture), the exception leaves the callback and a handle that was cached stays
  cached.
\<close>

theorem capture_exceptions:
  "(capture_image_and_save_to_base64 env (s\<lparr>led_2 := HIGH, led_1 := HIGH\<rparr>) = (Inl e, s1) \<longrightarrow>
       captureImageOpenai cfg env s = (Some e, s1)
       \<and> captureImageGoogle cfg env s = (Some e, s1)
       \<and> (picam2 s \<noteq> None \<longrightarrow> picam2 s1 = picam2 s))
   \<and> (capture_image_and_save_to_base64 env (s\<lparr>led_2 := HIGH, led_1 := HIGH\<rparr>) = (Inr v, s1) \<longrightarrow>
       fst (captureImageOpenai cfg env s) = None
       \<and> fst (captureImageGoogle cfg env s) = None
       \<and> (post_reply env = Inl e \<longrightarrow> picam2 (snd (captureImageOpenai cfg env s)) = None)
       \<and> (gemini env = Inl e \<or> post_reply env = Inl e \<longrightarrow>
            picam2 (snd (captureImageGoogle cfg env s)) = None))"
proof (intro conjI impI)
  assume a: "capture_image_and_save_to_base64 env (s\<lparr>led_2 := HIGH, led_1 := HIGH\<rparr>) = (Inl e, s1)"
  show "captureImageOpenai cfg env s = (Some e, s1)"
    using a by (simp add: captureImageOpenai_def)
  show "captureImageGoogle cfg env s = (Some e, s1)"
    using a by (simp add: captureImageGoogle_def)
  show "picam2 s1 = picam2 s" if "picam2 s \<noteq> None"
    using capture_fields [OF a] that by simp
next
  assume a: "capture_image_and_save_to_base64 env (s\<lparr>led_2 := HIGH, led_1 := HIGH\<rparr>) = (Inr v, s1)"
  show "fst (captureImageOpenai cfg env s) = None"
    using a by (simp add: captureImageOpenai_def post_content_def Let_def split: prod.splits sum.splits)
  show "fst (captureImageGoogle cfg env s) = None"
    using a by (simp add: captureImageGoogle_def analyze_image_google_def post_content_def Let_def
        split: prod.splits sum.splits)
  show "picam2 (snd (captureImageOpenai cfg env s)) = None" if "post_reply env = Inl e"
    using a that by (simp add: captureImageOpenai_def post_content_def Let_def split: prod.splits)
  show "picam2 (snd (captureImageGoogle cfg env s)) = None"
    if "gemini env = Inl e \<or> post_reply env = Inl e"
    using a that by (auto simp: captureImageGoogle_def analyze_image_google_def post_content_def
        Let_def split: prod.splits sum.splits)
qed

theorem capture_exceptions_witness:
  "fst (captureImageOpenai cfg0 cap_no_frame (initial_state cfg0)) = Some CameraError
   \<and> fst (captureImageOpenai cfg0 cap_no_post (initial_state cfg0)) = None
   \<and> picam2 (snd (captureImageOpenai cfg0 cap_no_post (initial_state cfg0))) = None"
proof -
  let ?s = "initial_state cfg0\<lparr>led_2 := HIGH, led_1 := HIGH\<rparr>"
  have "fst (capture_image_and_save_to_base64 cap_no_frame ?s) = Inl CameraError"
    by (simp add: capture_image_and_save_to_base64_def
      initial_state_def cap_no_frame_def cap_ok_def getIP_def Let_def emit_def and_then_def
      route_ip_def dict_get_def)
  then have c1: "capture_image_and_save_to_base64 cap_no_frame ?s
      = (Inl CameraError, snd (capture_image_and_save_to_base64 cap_no_frame ?s))"
    by (metis prod.collapse)
  have "fst (capture_image_and_save_to_base64 cap_no_post ?s) = Inr (''aGk='', 1)"
    by (simp add: capture_image_and_save_to_base64_def
      initial_state_def cap_no_post_def cap_ok_def getIP_def Let_def emit_def and_then_def
      route_ip_def dict_get_def)
  then have c2: "capture_image_and_save_to_base64 cap_no_post ?s
      = (Inr (''aGk='', 1), snd (capture_image_and_save_to_base64 cap_no_post ?s))"
    by (metis prod.collapse)
  have p: "post_reply cap_no_post = Inl RequestException"
    by (simp add: cap_no_post_def)
  show ?thesis
    using c1 c2 p
      capture_exceptions [where env = cap_no_frame and s = "initial_state cfg0"
        and e = CameraError and cfg = cfg0
        and ?s1.0 = "snd (capture_image_and_save_to_base64 cap_no_frame ?s)"]
      capture_exceptions [where env = cap_no_post and s = "initial_state cfg0"
        and e = RequestException and cfg = cfg0 and v = "(''aGk='', 1)"
        and ?s1.0 = "snd (capture_image_and_save_to_base64 cap_no_post ?s)"]
    by simp
qed

text \<open>
  The claim as stated fails: when the camera opens but gives no frame, the OpenAI button's
  callback raises and the handle stays cached.
\<close>

theorem capture_exceptions_counterexample:
  "fst (buttonCallback cfg0 cap_no_frame (initial_state cfg0)) = Some CameraError
   \<and> picam2 (snd (buttonCallback cfg0 cap_no_frame (initial_state cfg0))) = Some 7"
  by (simp add: buttonCallback_def captureImageOpenai_def capture_image_and_save_to_base64_def
      initial_state_def cap_no_frame_def cap_ok_def getIP_def Let_def emit_def and_then_def
      route_ip_def dict_get_def)

section \<open>The OpenAI button\<close>

lemma posted_payloads_append:
  "posted_payloads (xs @ ys) = posted_payloads xs @ posted_payloads ys"
  by (induction xs rule: posted_payloads.induct) simp_all

lemma openai_request_not_popen: "openai_request cfg b \<noteq> OsPopen c"
  by (simp add: openai_request_def)

lemma openai_request_not_upload:
  "openai_request cfg b \<noteq> HttpPost u (JObj [(''image'', i), (''description'', d), (''deviceid'', v)])"
  by (simp add: openai_request_def)

text \<open>
  C9: whatever state the device is in and whatever the capture meets, the OpenAI button's
  callback sends at most one HTTP post; the post is sent exactly when the callback returns
  normally (the capture gave a frame); its body carries the frame's base64 text, the empty
  string as description and the device id; and the request of the device's own
  \<open>analyze_image\<close> is never among what the callback sends.
\<close>

theorem openai_button_posts_blank_description:
  "\<exists>new. effects (snd (buttonCallback cfg env s)) = effects s @ new
      \<and> (\<forall>b. openai_request cfg b \<notin> set new)
      \<and> (posted_payloads new = []
          \<or> (\<exists>b img. frame env = Inr (b, img)
                \<and> posted_payloads new
                    = [JObj [(''image'', JStr b), (''description'', JStr []),
                             (''deviceid'', devId (snd (buttonCallback cfg env s)))]]))
      \<and> ((fst (buttonCallback cfg env s) = None) = (posted_payloads new \<noteq> []))"
proof -
  let ?s0 = "s\<lparr>led_1 := HIGH, led_2 := LOW, shutdownCounter := shutdown_counter_max cfg,
               led_2 := HIGH, led_1 := HIGH\<rparr>"
  obtain r s1 where c: "capture_image_and_save_to_base64 env ?s0 = (r, s1)"
    by (cases "capture_image_and_save_to_base64 env ?s0") 
  from capture_fields [OF c]
  consider (same) "effects s1 = effects s" | (popen) "effects s1 = effects s @ [OsPopen ''ip -j -4 route'']"
    by auto
  then obtain pre where pre: "effects s1 = effects s @ pre" "posted_payloads pre = []"
    "\<forall>b. openai_request cfg b \<notin> set pre"
  proof cases
    case same
    then show ?thesis using that [of "[]"] by simp
  next
    case popen
    then show ?thesis using that [of "[OsPopen ''ip -j -4 route'']"]
      by (simp add: openai_request_not_popen)
  qed
  show ?thesis
  proof (cases r)
    case (Inl e)
    then have "buttonCallback cfg env s = (Some e, s1)"
      using c by (simp add: buttonCallback_def captureImageOpenai_def)
    then show ?thesis using pre by auto
  next
    case (Inr v)
    obtain b img where v: "v = (b, img)" by (cases v)
    have f: "frame env = Inr (b, img)"
      using capture_ok_result c Inr v by blast
    have "fst (buttonCallback cfg env s) = None
          \<and> devId (snd (buttonCallback cfg env s)) = devId s1
          \<and> effects (snd (buttonCallback cfg env s))
              = effects s1 @ [HttpPost (contentserver_url cfg)
                   (JObj [(''image'', JStr b), (''description'', JStr []), (''deviceid'', devId s1)])]"
      using c Inr v
      by (simp add: buttonCallback_def captureImageOpenai_def post_content_def Let_def emit_def
          split: sum.splits)
    then show ?thesis
      using pre f
      by (intro exI [of _ "pre @ [HttpPost (contentserver_url cfg)
                   (JObj [(''image'', JStr b), (''description'', JStr []), (''deviceid'', devId s1)])]"])
        (simp add: posted_payloads_append openai_request_not_upload)
  qed
qed

theorem openai_button_posts_blank_description_witness:
  "posted_payloads (effects (snd (buttonCallback cfg0 cap_ok (initial_state cfg0))))
     = [JObj [(''image'', JStr ''aGk=''), (''description'', JStr []), (''deviceid'', JStr [])]]"
proof -
  have e: "effects (snd (buttonCallback cfg0 cap_ok (initial_state cfg0)))
     = [OsPopen ''ip -j -4 route'', HttpPost ''http://192.168.1.10:5000/add_content''
         (JObj [(''image'', JStr ''aGk=''), (''description'', JStr []), (''deviceid'', JStr [])])]"
    by (simp add: buttonCallback_def captureImageOpenai_def capture_image_and_save_to_base64_def
      initial_state_def cap_ok_def getIP_def Let_def emit_def and_then_def
      route_ip_def dict_get_def post_content_def cfg0_def)
  show ?thesis
    using openai_button_posts_blank_description [of cfg0 cap_ok "initial_state cfg0"]
    by (simp add: e)
qed

section \<open>Device identity\<close>

lemma route_ip_dict: "is_dict r \<Longrightarrow> route_ip r = Inr (wlan0_prefsrc r)"
  by (cases r) (simp_all add: route_ip_def wlan0_prefsrc_def)

lemma getIP_loop_dicts:
  "\<forall>r\<in>set rs. is_dict r \<Longrightarrow>
     getIP_loop rs s
       = (None, s\<lparr>ip := (case List.map_filter wlan0_prefsrc rs of [] \<Rightarrow> ip s | vs \<Rightarrow> last vs)\<rparr>)"
proof (induction rs arbitrary: s)
  case Nil
  then show ?case by (simp add: List.map_filter_simps)
next
  case (Cons r rs)
  then have r: "route_ip r = Inr (wlan0_prefsrc r)" and rs: "\<forall>r\<in>set rs. is_dict r"
    by (simp_all add: route_ip_dict)
  show ?case
  proof (cases "wlan0_prefsrc r")
    case None
    then show ?thesis
      using Cons.IH [OF rs, of s] r by (simp add: List.map_filter_simps)
  next
    case (Some v)
    then show ?thesis
      using Cons.IH [OF rs, of "s\<lparr>ip := v\<rparr>"] r
      by (simp add: List.map_filter_simps split: list.splits)
  qed
qed

lemma first_capture:
  assumes "firstTime s = 0" "ip s = JStr []" "picam2 s = None"
    and "new_camera env = Inr h" "ip_route env = Inr (JArr routes)" "\<forall>r\<in>set routes. is_dict r"
  shows "capture_image_and_save_to_base64 env s
           = (frame env, s\<lparr>picam2 := Some h, effects := effects s @ [OsPopen ''ip -j -4 route''],
                            ip := detected_ip routes, devId := detected_ip routes, firstTime := 1\<rparr>)"
  using assms
  by (simp add: capture_image_and_save_to_base64_def getIP_def Let_def emit_def and_then_def
      getIP_loop_dicts detected_ip_def split: list.splits)

lemma later_capture:
  "firstTime s \<noteq> 0 \<Longrightarrow> capture_image_and_save_to_base64 env s = (r, s') \<Longrightarrow>
     firstTime s' = firstTime s \<and> devId s' = devId s \<and> effects s' = effects s"
  unfolding capture_image_and_save_to_base64_def
  by (auto split: sum.splits if_splits)

lemma id_settled_openai:
  assumes "id_settled d s"
  shows "id_settled d (snd (captureImageOpenai cfg env s))"
proof -
  let ?s0 = "s\<lparr>led_2 := HIGH, led_1 := HIGH\<rparr>"
  obtain r s1 where c: "capture_image_and_save_to_base64 env ?s0 = (r, s1)"
    by (cases "capture_image_and_save_to_base64 env ?s0")
  have ft: "firstTime ?s0 \<noteq> 0"
    using assms by (simp add: id_settled_def)
  have s1: "id_settled d s1"
    using later_capture [OF ft c] assms by (simp add: id_settled_def)
  show ?thesis
    using c s1
    by (auto simp: captureImageOpenai_def post_content_def Let_def emit_def id_settled_def
        posted_payloads_append dict_get_def split: sum.splits prod.splits)
qed

lemma id_settled_google:
  assumes "id_settled d s"
  shows "id_settled d (snd (captureImageGoogle cfg env s))"
proof -
  let ?s0 = "s\<lparr>led_2 := HIGH, led_1 := HIGH\<rparr>"
  obtain r s1 where c: "capture_image_and_save_to_base64 env ?s0 = (r, s1)"
    by (cases "capture_image_and_save_to_base64 env ?s0")
  have ft: "firstTime ?s0 \<noteq> 0"
    using assms by (simp add: id_settled_def)
  have s1: "id_settled d s1"
    using later_capture [OF ft c] assms by (simp add: id_settled_def)
  show ?thesis
    using c s1
    by (auto simp: captureImageGoogle_def analyze_image_google_def post_content_def Let_def
        emit_def id_settled_def posted_payloads_append dict_get_def
        split: sum.splits prod.splits)
qed

lemma id_settled_prepared:
  "id_settled d (s\<lparr>led_1 := a, led_2 := b, shutdownCounter := c\<rparr>) = id_settled d s"
  by (simp add: id_settled_def)

lemma id_settled_callback: "id_settled d s \<Longrightarrow> id_settled d (snd (callback cfg ev s))"
proof (cases ev)
  case (OpenaiButton env)
  assume "id_settled d s"
  then show ?thesis
    using OpenaiButton by (simp add: buttonCallback_def id_settled_openai id_settled_prepared)
next
  case ShutdownButton
  assume "id_settled d s"
  then show ?thesis
    using ShutdownButton
    by (simp add: buttonCallback2_def Let_def emit_def id_settled_def posted_payloads_append)
next
  case (GoogleButton env)
  assume "id_settled d s"
  then show ?thesis
    using GoogleButton by (simp add: buttonCallback3_def id_settled_google id_settled_prepared)
qed

lemma id_settled_run: "id_settled d s \<Longrightarrow> id_settled d (run cfg evs s)"
  by (induction evs arbitrary: s) (simp_all add: id_settled_callback)

lemma id_settled_first:
  assumes "ev = OpenaiButton env \<or> ev = GoogleButton env"
    and "firstTime s = 0" "ip s = JStr []" "picam2 s = None" "posted_payloads (effects s) = []"
    and "new_camera env = Inr h" "ip_route env = Inr (JArr routes)" "\<forall>r\<in>set routes. is_dict r"
  shows "id_settled (detected_ip routes) (snd (callback cfg ev s))"
proof -
  have c: "capture_image_and_save_to_base64 env s'
        = (frame env, s'\<lparr>picam2 := Some h, effects := effects s' @ [OsPopen ''ip -j -4 route''],
             ip := detected_ip routes, devId := detected_ip routes, firstTime := 1\<rparr>)"
    if "firstTime s' = 0" "ip s' = JStr []" "picam2 s' = None" for s'
    using first_capture [OF that assms(6,7,8)] .
  from assms(1) show ?thesis
  proof
    assume ev: "ev = OpenaiButton env"
    let ?p = "s\<lparr>led_1 := HIGH, led_2 := LOW, shutdownCounter := shutdown_counter_max cfg,
                led_2 := HIGH, led_1 := HIGH\<rparr>"
    have "capture_image_and_save_to_base64 env ?p
        = (frame env, ?p\<lparr>picam2 := Some h, effects := effects ?p @ [OsPopen ''ip -j -4 route''],
             ip := detected_ip routes, devId := detected_ip routes, firstTime := 1\<rparr>)"
      using assms(2,3,4) by (intro c) simp_all
    then show ?thesis
      using assms(5) ev
      by (auto simp: buttonCallback_def captureImageOpenai_def post_content_def Let_def emit_def
          id_settled_def posted_payloads_append dict_get_def split: sum.splits prod.splits)
  next
    assume ev: "ev = GoogleButton env"
    let ?p = "s\<lparr>led_1 := LOW, led_2 := HIGH, shutdownCounter := shutdown_counter_max cfg,
                led_2 := HIGH, led_1 := HIGH\<rparr>"
    have "capture_image_and_save_to_base64 env ?p
        = (frame env, ?p\<lparr>picam2 := Some h, effects := effects ?p @ [OsPopen ''ip -j -4 route''],
             ip := detected_ip routes, devId := detected_ip routes, firstTime := 1\<rparr>)"
      using assms(2,3,4) by (intro c) simp_all
    then show ?thesis
      using assms(5) ev
      by (auto simp: buttonCallback3_def captureImageGoogle_def analyze_image_google_def
          post_content_def Let_def emit_def id_settled_def posted_payloads_append dict_get_def
          split: sum.splits prod.splits)
  qed
qed

lemma detected_none: "\<forall>r\<in>set routes. wlan0_prefsrc r = None \<Longrightarrow> detected_ip routes = JStr []"
proof -
  assume a: "\<forall>r\<in>set routes. wlan0_prefsrc r = None"
  then have "List.map_filter wlan0_prefsrc routes = []"
    by (induction routes) (simp_all add: List.map_filter_simps)
  then show ?thesis by (simp add: detected_ip_def)
qed

text \<open>
  C10: on the first capture of the process (no lookup done yet, \<open>ip\<close> still empty, no
  camera handle, nothing uploaded), when the camera opens and the route listing is a list
  of objects, the device id becomes the detected IP, whatever the configured default was;
  when no \<open>wlan0\<close> route has a \<open>prefsrc\<close>, it becomes the empty string; and after any
  further button events the device id is still the same and every upload sent so far,
  the first capture's included, carries it.
\<close>

theorem first_capture_sets_device_id:
  assumes "ev = OpenaiButton env \<or> ev = GoogleButton env"
    and "firstTime s = 0" "ip s = JStr []" "picam2 s = None" "posted_payloads (effects s) = []"
    and "new_camera env = Inr h" "ip_route env = Inr (JArr routes)" "\<forall>r\<in>set routes. is_dict r"
  shows "devId (snd (callback cfg ev s)) = detected_ip routes
       \<and> ((\<forall>r\<in>set routes. wlan0_prefsrc r = None) \<longrightarrow> devId (snd (callback cfg ev s)) = JStr [])
       \<and> (\<forall>evs. devId (run cfg evs (snd (callback cfg ev s))) = detected_ip routes
             \<and> (\<forall>p\<in>set (posted_payloads (effects (run cfg evs (snd (callback cfg ev s))))).
                   subscript p ''deviceid'' = Inr (detected_ip routes)))"
proof -
  have f: "id_settled (detected_ip routes) (snd (callback cfg ev s))"
    using id_settled_first [OF assms] .
  then have r: "id_settled (detected_ip routes) (run cfg evs (snd (callback cfg ev s)))" for evs
    by (rule id_settled_run)
  show ?thesis
    using f r detected_none [of routes]
    by (auto simp: id_settled_def list_all_iff)
qed

theorem first_capture_sets_device_id_witness:
  "devId (snd (callback cfg0 (OpenaiButton cap_ok) (initial_state cfg0))) = JStr []
   \<and> devId (run cfg0 [GoogleButton cap_ok, ShutdownButton]
        (snd (callback cfg0 (OpenaiButton cap_ok) (initial_state cfg0)))) = JStr []
   \<and> list_all (\<lambda>p. subscript p ''deviceid'' = Inr (JStr []))
        (posted_payloads (effects (run cfg0 [GoogleButton cap_ok, ShutdownButton]
           (snd (callback cfg0 (OpenaiButton cap_ok) (initial_state cfg0))))))"
proof -
  let ?routes = "[JObj [(''dst'', JStr ''default''), (''dev'', JStr ''eth0''),
                        (''prefsrc'', JStr ''192.168.1.20'')]]"
  have ev: "OpenaiButton cap_ok = OpenaiButton cap_ok \<or> OpenaiButton cap_ok = GoogleButton cap_ok"
    by simp
  have init: "firstTime (initial_state cfg0) = 0" "ip (initial_state cfg0) = JStr []"
    "picam2 (initial_state cfg0) = None" "posted_payloads (effects (initial_state cfg0)) = []"
    by (simp_all add: initial_state_def)
  have env: "new_camera cap_ok = Inr 7" "ip_route cap_ok = Inr (JArr ?routes)"
    by (simp_all add: cap_ok_def)
  have dicts: "\<forall>r\<in>set ?routes. is_dict r"
    by simp
  have none: "\<forall>r\<in>set ?routes. wlan0_prefsrc r = None"
    by (simp add: wlan0_prefsrc_def dict_get_def)
  note t = first_capture_sets_device_id [OF ev init env dicts, of cfg0]
  from t none have d: "devId (snd (callback cfg0 (OpenaiButton cap_ok) (initial_state cfg0))) = JStr []"
    by blast
  with t have e: "detected_ip ?routes = JStr []"
    by simp
  from t have r: "devId (run cfg0 evs (snd (callback cfg0 (OpenaiButton cap_ok) (initial_state cfg0))))
        = detected_ip ?routes
      \<and> (\<forall>p\<in>set (posted_payloads (effects (run cfg0 evs
             (snd (callback cfg0 (OpenaiButton cap_ok) (initial_state cfg0)))))).
           subscript p ''deviceid'' = Inr (detected_ip ?routes))" for evs
    by blast
  show ?thesis
    using d r [of "[GoogleButton cap_ok, ShutdownButton]"] unfolding e list_all_iff
    by blast
qed

end
